theory Spec2Isabelle
  imports Main
begin

section \<open>Errors and outcomes\<close>

text \<open>
  Go errors are values. \<open>Errorf\<close> stands for \<^verbatim>\<open>fmt.Errorf\<close> and \<^verbatim>\<open>errors.Errorf\<close> with
  the rendered message, \<open>Wrap\<close> for \<^verbatim>\<open>errors.Wrap\<close> and \<^verbatim>\<open>errors.Wrapf\<close>. The two messages
  of the template helpers that print their argument with \<^verbatim>\<open>%+v\<close> have a constructor
  each: \<open>FuncParamsErr err\<close> is
  \<^verbatim>\<open>fmt.Errorf("failed to get %+v func params: %v", f, err)\<close> and \<open>FuncResultsErr err\<close> is
  \<^verbatim>\<open>fmt.Errorf("failed to get %+v func results: %v", f, err)\<close>.
\<close>

datatype error =
    Errorf string
  | Wrap error string
  | FuncParamsErr error
  | FuncResultsErr error

text \<open>
  A call either panics, ends the process through \<^verbatim>\<open>log.Fatal\<close> (\<open>Exit\<close>), returns a
  non-nil error, or returns its value.
\<close>

datatype failure = Panic string | Exit error | Err error

section \<open>The \<^verbatim>\<open>strings\<close> and \<^verbatim>\<open>fmt\<close> functions the generator uses\<close>

definition HasPrefix :: "string \<Rightarrow> string \<Rightarrow> bool" where
  "HasPrefix s prefix = (take (length prefix) s = prefix)"

definition HasSuffix :: "string \<Rightarrow> string \<Rightarrow> bool" where
  "HasSuffix s suffix =
     (length suffix \<le> length s \<and> drop (length s - length suffix) s = suffix)"

definition TrimPrefix :: "string \<Rightarrow> string \<Rightarrow> string" where
  "TrimPrefix s prefix = (if HasPrefix s prefix then drop (length prefix) s else s)"

definition TrimSuffix :: "string \<Rightarrow> string \<Rightarrow> string" where
  "TrimSuffix s suffix =
     (if HasSuffix s suffix then take (length s - length suffix) s else s)"

fun Join :: "string list \<Rightarrow> string \<Rightarrow> string" where
  "Join [] sep = []"
| "Join [a] sep = a"
| "Join (a # b # rest) sep = a @ sep @ Join (b # rest) sep"

text \<open>\<^verbatim>\<open>%d\<close> of a non-negative index: its decimal digits.\<close>

definition digit :: "nat \<Rightarrow> char" where
  "digit d = ''0123456789'' ! d"

function Itoa :: "nat \<Rightarrow> string" where
  "Itoa n = (if n < 10 then [digit n] else Itoa (n div 10) @ [digit (n mod 10)])"
  by pat_completeness auto
termination
  by (relation "measure id") auto

declare Itoa.simps [simp del]

section \<open>Types and parameters as the generator library hands them over\<close>

text \<open>
  \<^verbatim>\<open>go/types\<close> values are read by the code through a type switch and three methods
  only, so a type is its dynamic kind with the strings those methods return: for
  \<^verbatim>\<open>*types.Named\<close> the results of \<^verbatim>\<open>String()\<close> and \<^verbatim>\<open>Underlying().String()\<close>, for
  \<^verbatim>\<open>*types.Basic\<close> the result of \<^verbatim>\<open>Name()\<close>, and for every other kind the result of
  \<^verbatim>\<open>String()\<close>.
\<close>

datatype kind = Pointer | Slice | Array | MapT | Chan | Struct | InterfaceT | SignatureT | Tuple

datatype types_Type =
    Named string string
  | Basic string
  | Composite kind string

fun type_String :: "types_Type \<Rightarrow> string" where
  "type_String (Named s u) = s"
| "type_String (Basic n) = n"
| "type_String (Composite k s) = s"

text \<open>
  \<^verbatim>\<open>generator.Param\<close> of the library \<^verbatim>\<open>github.com/gojuno/generator\<close>, which is not part of
  this repository: the fields the code reads, and \<open>Pass\<close> for the string that the method
  \<^verbatim>\<open>Pass()\<close> returns (the code only tests it for the suffix \<^verbatim>\<open>...\<close>, the library's mark
  of a variadic parameter). A \<^verbatim>\<open>generator.ParamSet\<close> is a list of them.
\<close>

record Param =
  Name :: string
  Type :: string
  OriginalType :: types_Type
  Pass :: string

type_synonym ParamSet = "Param list"

section \<open>The template helpers of \<^verbatim>\<open>decgen.go\<close>\<close>

text \<open>
  Each helper is a closure over the generator \<^verbatim>\<open>g\<close> that first asks the library for the
  parameters or results of its argument \<^verbatim>\<open>f\<close>. The models take the value of that call,
  \<^verbatim>\<open>g.FuncParams(f)\<close> or \<^verbatim>\<open>g.FuncResults(f)\<close>, as their argument: \<open>Inl err\<close> when the
  library failed, \<open>Inr params\<close> otherwise.
\<close>

text \<open>\<^verbatim>\<open>paramName\<close>: the index expression \<^verbatim>\<open>paramSet[index]\<close> panics out of range.\<close>

definition paramName :: "nat \<Rightarrow> ParamSet \<Rightarrow> failure + string" where
  "paramName index paramSet =
     (if length paramSet \<le> index then Inl (Panic ''index out of range'')
      else let param = paramSet ! index in
        if Type param = ''context.Context'' \<and> index = 0 then Inr ''ctx''
        else if length paramSet = 2 \<and> index = 1 then Inr ''req''
        else Inr (''param'' @ Itoa index))"

text \<open>\<^verbatim>\<open>FuncSignature\<close>: the loop over \<^verbatim>\<open>i, param := range params\<close>, then the result types.\<close>

fun signature_names :: "ParamSet \<Rightarrow> (nat \<times> Param) list \<Rightarrow> string list \<Rightarrow> failure + string list" where
  "signature_names params [] names = Inr names"
| "signature_names params ((i, param) # rest) names =
     (case paramName i params of
        Inl e \<Rightarrow> Inl e
      | Inr pn \<Rightarrow>
          let paramType =
                (if HasSuffix (Pass param) ''...''
                 then ''...'' @ TrimPrefix (Type param) ''[]''
                 else Type param)
          in signature_names params rest (names @ [pn @ '' '' @ paramType]))"

definition FuncSignature :: "error + ParamSet \<Rightarrow> error + ParamSet \<Rightarrow> failure + string" where
  "FuncSignature fparams fresults =
     (case fparams of
        Inl err \<Rightarrow> Inl (Err (FuncParamsErr err))
      | Inr params \<Rightarrow>
          (case signature_names params (enumerate 0 params) [] of
             Inl e \<Rightarrow> Inl e
           | Inr names \<Rightarrow>
               (case fresults of
                  Inl err \<Rightarrow> Inl (Err (FuncResultsErr err))
                | Inr results \<Rightarrow>
                    Inr (''('' @ Join names '', '' @ '') ('' @ Join (map Type results) '', '' @ '')''))))"

text \<open>\<^verbatim>\<open>FuncCall\<close>: the loop over \<^verbatim>\<open>i := range params\<close>.\<close>

fun call_names :: "ParamSet \<Rightarrow> nat list \<Rightarrow> string list \<Rightarrow> failure + string list" where
  "call_names params [] names = Inr names"
| "call_names params (i # rest) names =
     (case paramName i params of
        Inl e \<Rightarrow> Inl e
      | Inr pn \<Rightarrow> call_names params rest (names @ [pn]))"

definition FuncCall :: "error + ParamSet \<Rightarrow> failure + string" where
  "FuncCall fparams =
     (case fparams of
        Inl err \<Rightarrow> Inl (Err (FuncParamsErr err))
      | Inr params \<Rightarrow>
          (case call_names params [0..<length params] [] of
             Inl e \<Rightarrow> Inl e
           | Inr names \<Rightarrow> Inr (Join names '', '')))"

text \<open>
  \<^verbatim>\<open>FuncGRPCAdapterServer\<close> takes an \<^verbatim>\<open>interface{}\<close> and asserts that it is a string.
\<close>

datatype go_value = StringV string | OtherV

definition FuncGRPCAdapterServer :: "go_value \<Rightarrow> failure + string" where
  "FuncGRPCAdapterServer server =
     (case server of
        OtherV \<Rightarrow> Inl (Err (Errorf ''didn't recieve a string''))
      | StringV s \<Rightarrow>
          if \<not> HasSuffix s ''Client''
          then Inl (Err (Errorf ''the specified interface wasn't a client''))
          else Inr (TrimSuffix s ''Client'' @ ''Server''))"

text \<open>
  \<^verbatim>\<open>FuncCallGRPCAdapter\<close>: the same loop, left by \<^verbatim>\<open>break\<close> at the index
  \<^verbatim>\<open>len(params)-1\<close> (an \<^verbatim>\<open>int\<close>, which is \<open>-1\<close> for no parameters).
\<close>

fun adapter_names :: "ParamSet \<Rightarrow> nat list \<Rightarrow> string list \<Rightarrow> failure + string list" where
  "adapter_names params [] names = Inr names"
| "adapter_names params (i # rest) names =
     (if int i = int (length params) - 1 then Inr names
      else (case paramName i params of
              Inl e \<Rightarrow> Inl e
            | Inr pn \<Rightarrow> adapter_names params rest (names @ [pn])))"

definition FuncCallGRPCAdapter :: "error + ParamSet \<Rightarrow> failure + string" where
  "FuncCallGRPCAdapter fparams =
     (case fparams of
        Inl err \<Rightarrow> Inl (Err (FuncParamsErr err))
      | Inr params \<Rightarrow>
          (case adapter_names params [0..<length params] [] of
             Inl e \<Rightarrow> Inl e
           | Inr names \<Rightarrow> Inr (Join names '', '')))"

text \<open>
  \<^verbatim>\<open>FuncReturnErr\<close>. \<open>emptyValueOf\<close> is the body of the loop from
  \<^verbatim>\<open>emptyValue := "nil"\<close> to the end of the type switch: the switch has a case for
  \<^verbatim>\<open>*types.Named\<close> and one for \<^verbatim>\<open>*types.Basic\<close>, each with a panicking default, and no
  case for any other kind, which keeps \<^verbatim>\<open>"nil"\<close>.
\<close>

definition emptyValueOf :: "types_Type \<Rightarrow> failure + string" where
  "emptyValueOf t =
     (case t of
        Named s u \<Rightarrow>
          if u = ''int64'' then Inr ''0''
          else if u = ''string'' then Inr [CHR 0x22, CHR 0x22]
          else if u = ''bool'' then Inr ''false''
          else Inl (Panic (''no nil value for named type known: '' @ s @ '', '' @ u))
      | Basic n \<Rightarrow>
          if n = ''int64'' then Inr ''0''
          else if n = ''string'' then Inr [CHR 0x22, CHR 0x22]
          else if n = ''bool'' then Inr ''false''
          else Inl (Panic (''no nil value for basic type known: '' @ n))
      | Composite k s \<Rightarrow> Inr ''nil'')"

fun emptyValues :: "nat \<Rightarrow> (nat \<times> Param) list \<Rightarrow> string list \<Rightarrow> failure + string list" where
  "emptyValues n [] acc = Inr acc"
| "emptyValues n ((i, result) # rest) acc =
     (if Type result = ''error'' \<and> int i = int n - 1 then Inr acc
      else (case emptyValueOf (OriginalType result) of
              Inl e \<Rightarrow> Inl e
            | Inr emptyValue \<Rightarrow> emptyValues n rest (acc @ [emptyValue])))"

definition FuncReturnErr :: "error + ParamSet \<Rightarrow> failure + string" where
  "FuncReturnErr fresults =
     (case fresults of
        Inl err \<Rightarrow> Inl (Err (FuncParamsErr err))
      | Inr results \<Rightarrow>
          (case emptyValues (length results) (enumerate 0 results) [] of
             Inl e \<Rightarrow> Inl e
           | Inr vs \<Rightarrow>
               if length vs = 0 then Inr ''''
               else Inr (Join vs '', '' @ '','')))"

text \<open>
  \<^verbatim>\<open>FuncResults\<close> and \<^verbatim>\<open>FuncReturnOK\<close> name the results by position; \<open>terminal\<close> is the
  string for a last result of type \<^verbatim>\<open>error\<close> (\<^verbatim>\<open>"err"\<close> in the one, \<^verbatim>\<open>"nil"\<close> in the other).
\<close>

fun resultArguments :: "string \<Rightarrow> nat \<Rightarrow> (nat \<times> Param) list \<Rightarrow> string list \<Rightarrow> string list" where
  "resultArguments terminal n [] acc = acc"
| "resultArguments terminal n ((i, result) # rest) acc =
     (if Type result = ''error'' \<and> int i = int n - 1
      then resultArguments terminal n rest (acc @ [terminal])
      else resultArguments terminal n rest (acc @ [''arg'' @ Itoa i]))"

definition FuncResults :: "error + ParamSet \<Rightarrow> failure + string" where
  "FuncResults fresults =
     (case fresults of
        Inl err \<Rightarrow> Inl (Err (FuncParamsErr err))
      | Inr results \<Rightarrow>
          let args = resultArguments ''err'' (length results) (enumerate 0 results) [];
              assignmentOperator =
                (if length args = 1
                 then (if Type (results ! 0) = ''error'' then ''='' else '':='')
                 else '':='')
          in Inr (Join args '', '' @ '' '' @ assignmentOperator @ '' ''))"

definition FuncMutates :: "'a \<Rightarrow> failure + bool" where
  "FuncMutates f = Inr True"

definition FuncReturnOK :: "error + ParamSet \<Rightarrow> failure + string" where
  "FuncReturnOK fresults =
     (case fresults of
        Inl err \<Rightarrow> Inl (Err (FuncParamsErr err))
      | Inr results \<Rightarrow>
          Inr (Join (resultArguments ''nil'' (length results) (enumerate 0 results) []) '', ''))"

section \<open>The statements of \<^verbatim>\<open>templates.go\<close> that the helpers fill\<close>

text \<open>
  The mutex, trace and grpcadapter templates share three lines of every method body:
  \<^verbatim>\<open>{{results $method}} t.next.{{$methodName}}({{call $method}})\<close> (with
  \<^verbatim>\<open>callgrpcadapter\<close> for the adapter),
  \<^verbatim>\<open>return {{returnerr $method}} errors.WithStack(err)\<close> and
  \<^verbatim>\<open>return {{returnok $method}}\<close>.
\<close>

definition delegate_line :: "string \<Rightarrow> string \<Rightarrow> string \<Rightarrow> string" where
  "delegate_line results methodName call =
     results @ '' t.next.'' @ methodName @ ''('' @ call @ '')''"

definition error_return_line :: "string \<Rightarrow> string" where
  "error_return_line returnerr = ''return '' @ returnerr @ '' errors.WithStack(err)''"

definition ok_return_line :: "string \<Rightarrow> string" where
  "ok_return_line returnok = ''return '' @ returnok"

section \<open>The visitor and \<^verbatim>\<open>Generate\<close>\<close>

text \<open>
  A \<^verbatim>\<open>*types.Signature\<close> as a validator reads it: the types of the parameters and of the
  results. An interface type is the list of its methods, \<^verbatim>\<open>t.Method(i)\<close> for
  \<^verbatim>\<open>i < t.NumMethods()\<close>, each with its name and signature.
\<close>

record types_Signature =
  Params :: "types_Type list"
  Results :: "types_Type list"
  Variadic :: bool

type_synonym validatorFunc = "types_Signature \<Rightarrow> error option"

datatype expr_type = InterfaceType "(string \<times> types_Signature) list" | OtherType

text \<open>
  \<^verbatim>\<open>ast.Walk\<close> hands every node of a file to \<^verbatim>\<open>Visit\<close>, which looks at
  \<^verbatim>\<open>*ast.TypeSpec\<close> nodes only: a node is a type declaration, with its name and the value
  of \<^verbatim>\<open>v.gen.ExpressionType(ts.Type)\<close> (\<open>Inl err\<close> when the library fails), or any other
  node. A file is the sequence of its nodes in the order of the walk.
\<close>

datatype node = TypeSpec string "error + expr_type" | OtherNode

text \<open>
  The fields of \<^verbatim>\<open>visitor\<close> (without \<^verbatim>\<open>gen\<close>). \<open>validated\<close> is no field of the Go
  struct: it logs every call \<^verbatim>\<open>validator(signature)\<close> of \<^verbatim>\<open>processInterface\<close>, by the
  name of the method validated, so that the calls the code makes can be stated.
\<close>

record visitor =
  methods :: "string \<rightharpoonup> types_Signature"
  sname :: string
  validators :: "validatorFunc list"
  err :: "error option"
  validated :: "string list"

text \<open>The inner loop of \<^verbatim>\<open>processInterface\<close>, over the validators.\<close>

fun run_validators ::
  "validatorFunc list \<Rightarrow> string \<Rightarrow> types_Signature \<Rightarrow> string list \<Rightarrow> error option \<times> string list" where
  "run_validators [] name signature log = (None, log)"
| "run_validators (validator # rest) name signature log =
     (case validator signature of
        Some e \<Rightarrow>
          (Some (Wrap e (''failed to validate method '' @ [CHR 0x27] @ name @ [CHR 0x27])),
           log @ [name])
      | None \<Rightarrow> run_validators rest name signature (log @ [name]))"

text \<open>\<^verbatim>\<open>processInterface\<close>: the loop over the methods; \<^verbatim>\<open>v.methods\<close> is updated in place.\<close>

fun processInterface :: "visitor \<Rightarrow> (string \<times> types_Signature) list \<Rightarrow> error option \<times> visitor" where
  "processInterface v [] = (None, v)"
| "processInterface v ((name, signature) # rest) =
     (case run_validators (validators v) name signature (validated v) of
        (Some e, log) \<Rightarrow> (Some e, v\<lparr>validated := log\<rparr>)
      | (None, log) \<Rightarrow>
          processInterface
            (v\<lparr>methods := (methods v)(name \<mapsto> signature), validated := log\<rparr>) rest)"

definition Visit :: "visitor \<Rightarrow> node \<Rightarrow> failure + visitor" where
  "Visit v node =
     (case node of
        OtherNode \<Rightarrow> Inr v
      | TypeSpec name ty \<Rightarrow>
          (case ty of
             Inl e \<Rightarrow> Inl (Exit e)
           | Inr exprType \<Rightarrow>
               (case exprType of
                  InterfaceType t \<Rightarrow>
                    if name \<noteq> sname v then Inr v
                    else if err v = None
                    then (case processInterface v t of (e, v') \<Rightarrow> Inr (v'\<lparr>err := e\<rparr>))
                    else Inr v
                | OtherType \<Rightarrow> Inr v)))"

fun Walk :: "visitor \<Rightarrow> node list \<Rightarrow> failure + visitor" where
  "Walk v [] = Inr v"
| "Walk v (node # rest) =
     (case Visit v node of Inl x \<Rightarrow> Inl x | Inr v' \<Rightarrow> Walk v' rest)"

fun walk_files :: "visitor \<Rightarrow> node list list \<Rightarrow> failure + visitor" where
  "walk_files v [] = Inr v"
| "walk_files v (file # rest) =
     (case Walk v file of Inl x \<Rightarrow> Inl x | Inr v' \<Rightarrow> walk_files v' rest)"

text \<open>
  What \<^verbatim>\<open>Generate\<close> gets from outside: the values of the two calls of
  \<^verbatim>\<open>generator.PackageOf\<close>, the files of the source package in the program that
  \<^verbatim>\<open>createProgram\<close> loads, and the behaviour of \<^verbatim>\<open>gen.ProcessTemplate\<close> on a method set
  and of \<^verbatim>\<open>gen.WriteToFilename\<close> on the rendered text.
\<close>

record world =
  sourcePath :: "error + string"
  destPath :: "error + string"
  program :: "error + node list list"
  ProcessTemplate :: "(string \<rightharpoonup> types_Signature) \<Rightarrow> error + string"
  WriteToFilename :: "string \<Rightarrow> error option"

text \<open>The calls that render and write, in the order \<^verbatim>\<open>Generate\<close> makes them.\<close>

datatype action = Rendered "string \<rightharpoonup> types_Signature" | Written string

text \<open>The visitor that \<^verbatim>\<open>Generate\<close> builds before the walk.\<close>

definition newVisitor :: "validatorFunc list \<Rightarrow> string \<Rightarrow> visitor" where
  "newVisitor vs interfaceName =
     \<lparr>methods = Map.empty, sname = interfaceName, validators = vs, err = None, validated = []\<rparr>"

text \<open>
  The end of \<^verbatim>\<open>Generate\<close>, from \<^verbatim>\<open>gen.ProcessTemplate("interface", template, v.methods)\<close>
  on.
\<close>

definition render_and_write ::
  "world \<Rightarrow> (string \<rightharpoonup> types_Signature) \<Rightarrow> (failure + unit) \<times> action list" where
  "render_and_write w ms =
     (case ProcessTemplate w ms of
        Inl e \<Rightarrow> (Inl (Err (Wrap e ''failed to process template'')), [Rendered ms])
      | Inr text \<Rightarrow>
          (case WriteToFilename w text of
             Some e \<Rightarrow> (Inl (Err (Wrap e ''failed to write file'')), [Rendered ms, Written text])
           | None \<Rightarrow> (Inr (), [Rendered ms, Written text])))"

definition Generate :: "world \<Rightarrow> validatorFunc list \<Rightarrow> string \<Rightarrow> (failure + unit) \<times> action list" where
  "Generate w vs interfaceName =
     (case sourcePath w of
        Inl e \<Rightarrow> (Inl (Err (Wrap e ''failed to get sourcePath'')), [])
      | Inr sp \<Rightarrow>
     (case destPath w of
        Inl e \<Rightarrow> (Inl (Err (Wrap e ''failed to get destPath'')), [])
      | Inr dp \<Rightarrow>
     (case program w of
        Inl e \<Rightarrow> (Inl (Err (Wrap e ''failed to create program'')), [])
      | Inr files \<Rightarrow>
     (case walk_files (newVisitor vs interfaceName) files of
        Inl x \<Rightarrow> (Inl x, [])
      | Inr v \<Rightarrow>
     (case err v of
        Some e \<Rightarrow> (Inl (Err (Wrap e ''failed to parse interface'')), [])
      | None \<Rightarrow> render_and_write w (methods v))))))"

text \<open>The validator that \<^verbatim>\<open>Execute\<close> registers (\<^verbatim>\<open>fn\<close> in package \<^verbatim>\<open>cmd\<close>).\<close>

definition fn :: validatorFunc where
  "fn s =
     (if length (Params s) = 0 then Some (Errorf ''first param must be context.Context'')
      else if type_String (Params s ! 0) \<noteq> ''context.Context''
      then Some (Errorf ''first param must be context.Context'')
      else None)"

section \<open>The naming rules in the words of the specification\<close>

text \<open>
  Section 4.3 of the specification gives the resolver as three rules applied in order:
  index 0 of context-carrier type is the context parameter; else index 1 of a list of
  exactly two entries is the request payload; else the positional name.
\<close>

definition nameOf :: "nat \<Rightarrow> ParamSet \<Rightarrow> string" where
  "nameOf index parameterList =
     (if index = 0 \<and> Type (parameterList ! index) = ''context.Context'' then ''ctx''
      else if length parameterList = 2 \<and> index = 1 then ''req''
      else ''param'' @ Itoa index)"

section \<open>Example inputs\<close>

text \<open>
  The parameters and results of \<^verbatim>\<open>Do(ctx context.Context, req *Request) (*Response, error)\<close>,
  the method of the README, as the library reports them.
\<close>

definition ctxParam :: Param where
  "ctxParam =
     \<lparr>Name = ''p0'', Type = ''context.Context'',
      OriginalType = Named ''context.Context'' ''interface{Deadline() (deadline time.Time, ok bool); Done() <-chan struct{}; Err() error; Value(key interface{}) interface{}}'',
      Pass = ''p0''\<rparr>"

definition reqParam :: Param where
  "reqParam =
     \<lparr>Name = ''p1'', Type = ''*Request'',
      OriginalType = Composite Pointer ''*Request'', Pass = ''p1''\<rparr>"

definition ptrResult :: Param where
  "ptrResult =
     \<lparr>Name = ''r0'', Type = ''*Response'',
      OriginalType = Composite Pointer ''*Response'', Pass = ''r0''\<rparr>"

definition errResult :: Param where
  "errResult =
     \<lparr>Name = ''r1'', Type = ''error'',
      OriginalType = Named ''error'' ''interface{Error() string}'', Pass = ''r1''\<rparr>"

section \<open>Declarations in the source files\<close>

text \<open>
  Two tests on a node of the source files: whether it declares an interface type of
  the given name, and whether the library failed to resolve its type expression.
\<close>

fun declares :: "string \<Rightarrow> node \<Rightarrow> bool" where
  "declares interfaceName (TypeSpec name (Inr (InterfaceType t))) = (name = interfaceName)"
| "declares interfaceName node = False"

fun unresolved :: "node \<Rightarrow> bool" where
  "unresolved (TypeSpec name (Inl e)) = True"
| "unresolved node = False"

text \<open>
  Signatures for the examples: one that starts with \<^verbatim>\<open>context.Context\<close> and one that
  does not; and a run in which the two packages are found, the program loads with the
  given files, the template renders and the file is written.
\<close>

definition ctxSignature :: types_Signature where
  "ctxSignature =
     \<lparr>Params = [OriginalType ctxParam, OriginalType reqParam],
      Results = [OriginalType ptrResult, OriginalType errResult], Variadic = False\<rparr>"

definition plainSignature :: types_Signature where
  "plainSignature =
     \<lparr>Params = [Basic ''string''], Results = [OriginalType errResult], Variadic = False\<rparr>"

definition renderConst :: "(string \<rightharpoonup> types_Signature) \<Rightarrow> error + string" where
  "renderConst ms = Inr ''package app''"

definition writeOk :: "string \<Rightarrow> error option" where
  "writeOk text = None"

definition loaded :: "node list list \<Rightarrow> world" where
  "loaded files =
     \<lparr>sourcePath = Inr ''example.com/app'', destPath = Inr ''example.com/app'',
      program = Inr files, ProcessTemplate = renderConst, WriteToFilename = writeOk\<rparr>"

text \<open>More results for the examples: \<^verbatim>\<open>int\<close>, \<^verbatim>\<open>int64\<close>, a slice, and a variadic parameter.\<close>

definition intResult :: Param where
  "intResult = \<lparr>Name = ''r0'', Type = ''int'', OriginalType = Basic ''int'', Pass = ''r0''\<rparr>"

definition int64Result :: Param where
  "int64Result =
     \<lparr>Name = ''r0'', Type = ''int64'', OriginalType = Basic ''int64'', Pass = ''r0''\<rparr>"

definition sliceResult :: Param where
  "sliceResult =
     \<lparr>Name = ''r0'', Type = ''[]string'',
      OriginalType = Composite Slice ''[]string'', Pass = ''r0''\<rparr>"

definition variadicParam :: Param where
  "variadicParam =
     \<lparr>Name = ''p2'', Type = ''[]string'',
      OriginalType = Composite Slice ''[]string'', Pass = ''p2...''\<rparr>"

section \<open>Strings and iteration\<close>

lemma Itoa_0: "Itoa 0 = ''0''"
  by (simp add: Itoa.simps digit_def)

lemma Itoa_1: "Itoa (Suc 0) = ''1''"
  by (simp add: Itoa.simps digit_def)

lemma Itoa_2: "Itoa (Suc (Suc 0)) = ''2''"
  by (simp add: Itoa.simps digit_def)

lemma Join_snoc: "xs \<noteq> [] \<Longrightarrow> Join (xs @ [y]) sep = Join xs sep @ sep @ y"
  by (induction xs sep rule: Join.induct) auto

lemma HasSuffix_append: "HasSuffix (p @ suf) suf"
  by (simp add: HasSuffix_def)

lemma TrimSuffix_append: "TrimSuffix (p @ suf) suf = p"
  by (simp add: TrimSuffix_def HasSuffix_append)

lemma paramName_in_range: "i < length ps \<Longrightarrow> paramName i ps = Inr (nameOf i ps)"
  by (auto simp: paramName_def nameOf_def Let_def)

lemma call_names_eq:
  "\<forall>i\<in>set js. i < length ps \<Longrightarrow>
   call_names ps js acc = Inr (acc @ map (\<lambda>i. nameOf i ps) js)"
  by (induction js arbitrary: acc) (simp_all add: paramName_in_range)

lemma adapter_names_eq:
  "\<forall>i\<in>set js. i < length ps \<Longrightarrow>
   adapter_names ps js acc =
     Inr (acc @ map (\<lambda>i. nameOf i ps) (takeWhile (\<lambda>i. int i \<noteq> int (length ps) - 1) js))"
  by (induction js arbitrary: acc) (simp_all add: paramName_in_range)

lemma takeWhile_before_last:
  "takeWhile (\<lambda>i. int i \<noteq> int n - 1) [0..<n] = [0..<n - 1]"
proof (cases n)
  case 0
  then show ?thesis by simp
next
  case (Suc m)
  have "takeWhile (\<lambda>i. int i \<noteq> int (Suc m) - 1) ([0..<m] @ [m]) = [0..<m]"
    by (subst takeWhile_append2) auto
  with Suc show ?thesis by simp
qed

lemma butlast_upt0: "butlast [0..<n] = [0..<n - 1]"
  by (cases n) simp_all

lemma FuncCall_names:
  "FuncCall (Inr ps) = Inr (Join (map (\<lambda>i. nameOf i ps) [0..<length ps]) '', '')"
  by (simp add: FuncCall_def call_names_eq)

lemma FuncCallGRPCAdapter_names:
  "FuncCallGRPCAdapter (Inr ps) =
     Inr (Join (butlast (map (\<lambda>i. nameOf i ps) [0..<length ps])) '', '')"
  by (simp add: FuncCallGRPCAdapter_def adapter_names_eq takeWhile_before_last
      map_butlast [symmetric] butlast_upt0)

lemma resultArguments_eq:
  "resultArguments t n xs acc =
     acc @ map (\<lambda>(i, r). if Type r = ''error'' \<and> int i = int n - 1 then t
                          else ''arg'' @ Itoa i) xs"
  by (induction t n xs acc rule: resultArguments.induct) auto

section \<open>Result plumbing\<close>

text \<open>
  C4: for a result list of a pointer result such as \<^verbatim>\<open>*Response\<close> followed by the
  terminal \<^verbatim>\<open>error\<close>, \<^verbatim>\<open>FuncReturnErr\<close> yields \<^verbatim>\<open>nil,\<close> for the non-terminal slot, so the
  error path renders \<^verbatim>\<open>return nil, errors.WithStack(err)\<close>, and \<^verbatim>\<open>FuncReturnOK\<close> yields
  \<^verbatim>\<open>arg0, nil\<close>: the positional binding for the first result and \<^verbatim>\<open>nil\<close> in the slot of
  the terminal error.
\<close>

theorem pointer_and_error_returns:
  assumes "Type e = ''error''" and "OriginalType r = Composite Pointer s"
  shows "FuncReturnErr (Inr [r, e]) = Inr ''nil,'' \<and>
         FuncReturnOK (Inr [r, e]) = Inr ''arg0, nil'' \<and>
         error_return_line ''nil,'' = ''return nil, errors.WithStack(err)'' \<and>
         ok_return_line ''arg0, nil'' = ''return arg0, nil''"
  using assms
  by (simp add: FuncReturnErr_def FuncReturnOK_def emptyValueOf_def Itoa_0
      error_return_line_def ok_return_line_def)

theorem pointer_and_error_returns_witness:
  "Type errResult = ''error'' \<and> OriginalType ptrResult = Composite Pointer ''*Response'' \<and>
   FuncReturnErr (Inr [ptrResult, errResult]) = Inr ''nil,'' \<and>
   FuncReturnOK (Inr [ptrResult, errResult]) = Inr ''arg0, nil''"
proof -
  have t: "Type errResult = ''error''"
    by (simp add: errResult_def)
  have o: "OriginalType ptrResult = Composite Pointer ''*Response''"
    by (simp add: ptrResult_def)
  from pointer_and_error_returns [OF t o] t o show ?thesis
    by simp
qed

text \<open>
  C10: when the result list is the terminal \<^verbatim>\<open>error\<close> alone, \<^verbatim>\<open>FuncReturnErr\<close> returns the
  empty string, with no literal and no trailing comma, so the error return of the
  templates consists of the wrapped error alone.
\<close>

theorem error_only_returns_empty:
  assumes "Type e = ''error''"
  shows "FuncReturnErr (Inr [e]) = Inr '''' \<and>
         error_return_line '''' = ''return  errors.WithStack(err)''"
  using assms by (simp add: FuncReturnErr_def error_return_line_def)

theorem error_only_returns_empty_witness:
  "Type errResult = ''error'' \<and> FuncReturnErr (Inr [errResult]) = Inr ''''"
proof -
  have t: "Type errResult = ''error''"
    by (simp add: errResult_def)
  from error_only_returns_empty [OF t] t show ?thesis
    by simp
qed

text \<open>
  C9: the assignment operator depends only on whether the result list is exactly the
  single terminal \<^verbatim>\<open>error\<close>. Then \<^verbatim>\<open>FuncResults\<close> yields \<^verbatim>\<open>err = \<close>, the plain
  reassignment of the binding declared before; for every other list it yields the
  declaration \<^verbatim>\<open>:=\<close>, and for a richer list that ends in the terminal error the bindings
  are \<^verbatim>\<open>arg<i>\<close> for each non-terminal result followed by \<^verbatim>\<open>err\<close>.
\<close>

theorem assignment_style:
  "FuncResults (Inr rs) =
     Inr (Join (map (\<lambda>(i, r). if Type r = ''error'' \<and> Suc i = length rs then ''err''
                                else ''arg'' @ Itoa i) (enumerate 0 rs)) '', ''
          @ (if length rs = 1 \<and> Type (hd rs) = ''error'' then '' = '' else '' := '')) \<and>
   (Type e = ''error'' \<longrightarrow> FuncResults (Inr [e]) = Inr ''err = '') \<and>
   (Type e = ''error'' \<and> pre \<noteq> [] \<longrightarrow>
      FuncResults (Inr (pre @ [e])) =
        Inr (Join (map (\<lambda>i. ''arg'' @ Itoa i) [0..<length pre]) '', '' @ '', err := ''))"
proof -
  have general: "FuncResults (Inr rs) =
     Inr (Join (map (\<lambda>(i, r). if Type r = ''error'' \<and> Suc i = length rs then ''err''
                                else ''arg'' @ Itoa i) (enumerate 0 rs)) '', ''
          @ (if length rs = 1 \<and> Type (hd rs) = ''error'' then '' = '' else '' := ''))" for rs
    by (cases rs) (simp_all add: FuncResults_def resultArguments_eq Let_def)
  have single: "FuncResults (Inr [e]) = Inr ''err = ''" if "Type e = ''error''"
    using that by (simp add: general)
  have richer: "FuncResults (Inr (pre @ [e])) =
        Inr (Join (map (\<lambda>i. ''arg'' @ Itoa i) [0..<length pre]) '', '' @ '', err := '')"
    if "Type e = ''error''" "pre \<noteq> []"
  proof -
    have en: "enumerate 0 (pre @ [e]) = enumerate 0 pre @ [(length pre, e)]"
      by (simp add: enumerate_append_eq)
    have m: "map (\<lambda>(i, r). if Type r = ''error'' \<and> Suc i = length (pre @ [e]) then ''err''
                            else ''arg'' @ Itoa i) (enumerate 0 pre)
          = map (\<lambda>i. ''arg'' @ Itoa i) [0..<length pre]"
      by (rule nth_equalityI) (simp_all add: nth_enumerate_eq)
    from that(2) have len: "length (pre @ [e]) \<noteq> 1"
      by (cases pre) auto
    show ?thesis
      unfolding general en using that m len by (simp add: Join_snoc)
  qed
  show ?thesis
    using general single richer by blast
qed

theorem assignment_style_witness:
  "Type errResult = ''error'' \<and> FuncResults (Inr [errResult]) = Inr ''err = '' \<and>
   [ptrResult] \<noteq> [] \<and>
   FuncResults (Inr ([ptrResult] @ [errResult])) = Inr ''arg0, err := ''"
  using assignment_style [of "[errResult]" errResult "[ptrResult]"]
  by (simp add: errResult_def Itoa_0)

section \<open>Naming and forwarding\<close>

text \<open>
  C5: \<^verbatim>\<open>paramName\<close> is the position-based resolver of the specification: on every index
  of the list it returns \<^verbatim>\<open>ctx\<close> for index 0 of type \<^verbatim>\<open>context.Context\<close>, \<^verbatim>\<open>req\<close> for
  index 1 of a list of exactly two entries, and \<^verbatim>\<open>param<index>\<close> otherwise. So a context
  carrier followed by one parameter is named \<^verbatim>\<open>ctx, req\<close>, a context carrier alone
  \<^verbatim>\<open>ctx\<close>, and a context carrier followed by two parameters \<^verbatim>\<open>ctx, param1, param2\<close>.
\<close>

theorem naming_resolver:
  "(i < length ps \<longrightarrow> paramName i ps = Inr (nameOf i ps)) \<and>
   (Type c = ''context.Context'' \<longrightarrow>
      map (\<lambda>i. paramName i [c, r]) [0..<length [c, r]] = [Inr ''ctx'', Inr ''req''] \<and>
      map (\<lambda>i. paramName i [c]) [0..<length [c]] = [Inr ''ctx''] \<and>
      map (\<lambda>i. paramName i [c, a, b]) [0..<length [c, a, b]] =
        [Inr ''ctx'', Inr ''param1'', Inr ''param2''])"
proof -
  have general: "i < length ps \<longrightarrow> paramName i ps = Inr (nameOf i ps)"
    by (simp add: paramName_in_range)
  have examples:
    "map (\<lambda>i. paramName i [c, r]) [0..<length [c, r]] = [Inr ''ctx'', Inr ''req''] \<and>
     map (\<lambda>i. paramName i [c]) [0..<length [c]] = [Inr ''ctx''] \<and>
     map (\<lambda>i. paramName i [c, a, b]) [0..<length [c, a, b]] =
       [Inr ''ctx'', Inr ''param1'', Inr ''param2'']"
    if "Type c = ''context.Context''"
    using that by (simp add: upt_rec paramName_def Itoa_1 Itoa_2)
  show ?thesis
    using general examples by blast
qed

theorem naming_resolver_witness:
  "(1::nat) < length [ctxParam, reqParam] \<and>
   paramName 1 [ctxParam, reqParam] = Inr ''req'' \<and>
   Type ctxParam = ''context.Context'' \<and>
   map (\<lambda>i. paramName i [ctxParam, reqParam]) [0..<length [ctxParam, reqParam]] =
     [Inr ''ctx'', Inr ''req''] \<and>
   map (\<lambda>i. paramName i [ctxParam]) [0..<length [ctxParam]] = [Inr ''ctx''] \<and>
   map (\<lambda>i. paramName i [ctxParam, reqParam, reqParam])
     [0..<length [ctxParam, reqParam, reqParam]] =
     [Inr ''ctx'', Inr ''param1'', Inr ''param2'']"
  using naming_resolver [of 1 "[ctxParam, reqParam]" ctxParam reqParam reqParam reqParam]
  by (simp add: nameOf_def ctxParam_def reqParam_def)

text \<open>
  C8: the argument list that \<^verbatim>\<open>FuncCallGRPCAdapter\<close> renders for the delegated call of
  the adapter is the names of all parameters but the last, in their order: with
  \<open>names\<close> the name \<^verbatim>\<open>paramName\<close> gives to each index of the whole list, it is
  \<open>butlast names\<close> joined by commas.
\<close>

theorem adapter_forwards_all_but_last:
  "\<exists>names. map (\<lambda>i. paramName i ps) [0..<length ps] = map Inr names \<and>
     FuncCallGRPCAdapter (Inr ps) = Inr (Join (butlast names) '', '')"
proof -
  let ?names = "map (\<lambda>i. nameOf i ps) [0..<length ps]"
  have "map (\<lambda>i. paramName i ps) [0..<length ps] = map Inr ?names"
    by (simp add: paramName_in_range)
  then show ?thesis
    using FuncCallGRPCAdapter_names by blast
qed

text \<open>
  C7: \<^verbatim>\<open>FuncGRPCAdapterServer\<close>, the helper that only the adapter template calls, succeeds
  on every interface name that ends in \<^verbatim>\<open>Client\<close> and yields the name with that suffix
  replaced by \<^verbatim>\<open>Server\<close>; on every name that does not end in \<^verbatim>\<open>Client\<close> it fails with
  an error.
\<close>

theorem adapter_suffix_rule:
  "FuncGRPCAdapterServer (StringV (p @ ''Client'')) = Inr (p @ ''Server'') \<and>
   (\<not> HasSuffix s ''Client'' \<longrightarrow>
      FuncGRPCAdapterServer (StringV s) =
        Inl (Err (Errorf ''the specified interface wasn't a client'')))"
  by (simp add: FuncGRPCAdapterServer_def HasSuffix_append TrimSuffix_append)

theorem adapter_suffix_rule_witness:
  "FuncGRPCAdapterServer (StringV ''FooClient'') = Inr ''FooServer'' \<and>
   \<not> HasSuffix ''Foo'' ''Client'' \<and>
   FuncGRPCAdapterServer (StringV ''Foo'') =
     Inl (Err (Errorf ''the specified interface wasn't a client''))"
  using adapter_suffix_rule [of "''Foo''" "''Foo''"]
  by (simp add: HasSuffix_def)

section \<open>Zero values on the error path\<close>

lemma emptyValues_ok:
  "\<forall>(i, r)\<in>set xs. \<not> (Type r = ''error'' \<and> int i = int n - 1) \<Longrightarrow>
   map (\<lambda>(i, r). emptyValueOf (OriginalType r)) xs = map Inr vs \<Longrightarrow>
   emptyValues n (xs @ ys) acc = emptyValues n ys (acc @ vs)"
proof (induction xs arbitrary: vs acc)
  case Nil
  then show ?case by simp
next
  case (Cons x xs)
  obtain i r where x: "x = (i, r)" by (cases x)
  from Cons.prems(2) obtain v vs' where vs: "vs = v # vs'"
    by (cases vs) auto
  with Cons.prems(2) x have v: "emptyValueOf (OriginalType r) = Inr v"
    and rest: "map (\<lambda>(i, r). emptyValueOf (OriginalType r)) xs = map Inr vs'"
    by auto
  from Cons.prems(1) x have nt: "\<not> (Type r = ''error'' \<and> int i = int n - 1)"
    and nts: "\<forall>(i, r)\<in>set xs. \<not> (Type r = ''error'' \<and> int i = int n - 1)"
    by auto
  show ?case
    using Cons.IH [OF nts rest, of "acc @ [v]"] nt v x vs by auto
qed

lemma enumerate_not_last:
  "\<forall>(i, r)\<in>set (enumerate 0 pre). \<not> (Type r = ''error'' \<and> int i = int (length (pre @ post @ [e])) - 1)"
  by (auto simp: in_set_enumerate_eq)

lemma enumerate_OriginalType:
  "map (\<lambda>(i, r). emptyValueOf (OriginalType r)) (enumerate k pre) = map (emptyValueOf \<circ> OriginalType) pre"
  by (induction pre arbitrary: k) auto

lemma FuncReturnErr_values:
  assumes "Type e = ''error''" and "map (emptyValueOf \<circ> OriginalType) pre = map Inr vs"
  shows "FuncReturnErr (Inr (pre @ [e])) = Inr (if pre = [] then '''' else Join vs '', '' @ '','')"
proof -
  have en: "enumerate 0 (pre @ [e]) = enumerate 0 pre @ [(length pre, e)]"
    by (simp add: enumerate_append_eq)
  have "emptyValues (length (pre @ [e])) (enumerate 0 pre @ [(length pre, e)]) [] =
        emptyValues (length (pre @ [e])) [(length pre, e)] ([] @ vs)"
    using enumerate_not_last [of pre "[]" e] assms(2)
    by (intro emptyValues_ok) (simp_all add: enumerate_OriginalType)
  also have "\<dots> = Inr vs"
    using assms(1) by simp
  finally have loop: "emptyValues (length (pre @ [e])) (enumerate 0 (pre @ [e])) [] = Inr vs"
    by (simp add: en)
  from assms(2) have "length vs = length pre"
    by (metis length_map)
  then have "(vs = []) = (pre = [])" by auto
  with loop show ?thesis
    unfolding FuncReturnErr_def by simp
qed

lemma enumerate_no_terminal:
  assumes "rs = [] \<or> Type (last rs) \<noteq> ''error''"
  shows "\<forall>(i, r)\<in>set (enumerate 0 rs). \<not> (Type r = ''error'' \<and> int i = int (length rs) - 1)"
proof (cases "rs = []")
  case True
  then show ?thesis by simp
next
  case False
  with assms have l: "Type (last rs) \<noteq> ''error''" by simp
  have "r = last rs" if "i < length rs" "rs ! i = r" "int i = int (length rs) - 1" for i r
  proof -
    from that(3) have "i = length rs - 1" by linarith
    with that(2) False show ?thesis by (simp add: last_conv_nth)
  qed
  with l show ?thesis
    by (auto simp: in_set_enumerate_eq)
qed

lemma FuncReturnErr_no_terminal:
  assumes "rs = [] \<or> Type (last rs) \<noteq> ''error''"
    and "map (emptyValueOf \<circ> OriginalType) rs = map Inr vs"
  shows "FuncReturnErr (Inr rs) = Inr (if rs = [] then '''' else Join vs '', '' @ '','')"
proof -
  have "emptyValues (length rs) (enumerate 0 rs @ []) [] = emptyValues (length rs) [] ([] @ vs)"
    using enumerate_no_terminal [OF assms(1)] assms(2)
    by (intro emptyValues_ok) (simp_all add: enumerate_OriginalType)
  then have loop: "emptyValues (length rs) (enumerate 0 rs) [] = Inr vs"
    by simp
  from assms(2) have "length vs = length rs"
    by (metis length_map)
  then have "(vs = []) = (rs = [])" by auto
  with loop show ?thesis
    unfolding FuncReturnErr_def by simp
qed

lemma FuncReturnErr_first_panic:
  assumes "map (emptyValueOf \<circ> OriginalType) pre = map Inr vs"
    and "emptyValueOf (OriginalType r) = Inl p"
    and "\<not> (Type r = ''error'' \<and> post = [])"
  shows "FuncReturnErr (Inr (pre @ r # post)) = Inl p"
proof -
  let ?n = "length (pre @ r # post)"
  have en: "enumerate 0 (pre @ r # post) =
      enumerate 0 pre @ (length pre, r) # enumerate (Suc (length pre)) post"
    by (simp add: enumerate_append_eq)
  have nt: "\<forall>(i, r)\<in>set (enumerate 0 pre). \<not> (Type r = ''error'' \<and> int i = int ?n - 1)"
    by (auto simp: in_set_enumerate_eq)
  have here: "\<not> (Type r = ''error'' \<and> int (length pre) = int ?n - 1)"
    using assms(3) by auto
  have "emptyValues ?n (enumerate 0 pre @ (length pre, r) # enumerate (Suc (length pre)) post) [] =
        emptyValues ?n ((length pre, r) # enumerate (Suc (length pre)) post) ([] @ vs)"
    using nt assms(1) by (intro emptyValues_ok) (simp_all add: enumerate_OriginalType)
  also have "\<dots> = Inl p"
    using assms(2) here by (simp only: emptyValues.simps if_False sum.case)
  finally have "emptyValues ?n (enumerate 0 (pre @ r # post)) [] = Inl p"
    by (simp only: en)
  then show ?thesis
    by (simp add: FuncReturnErr_def)
qed

text \<open>
  C3, as the code has it: on every non-terminal result position the empty value follows
  the dynamic kind of the type. A basic type named \<^verbatim>\<open>int64\<close>, \<^verbatim>\<open>string\<close> or \<^verbatim>\<open>bool\<close>
  gives \<^verbatim>\<open>0\<close>, the empty string literal or \<^verbatim>\<open>false\<close>, and so does a named type whose
  underlying type prints as one of the three. Every other basic type, the other integer
  types among them, and every other named type is a panic. A pointer, slice, map,
  channel, function or interface literal type gives \<^verbatim>\<open>nil\<close>, with no error. The
  non-terminal positions are all positions but a last one of type \<^verbatim>\<open>error\<close>: when the
  list ends in the terminal error, \<^verbatim>\<open>FuncReturnErr\<close> joins the values of the positions
  before it and appends a comma; when the list is empty or its last result is not of
  type \<^verbatim>\<open>error\<close>, it does so for all positions; and the panic of a non-terminal
  position, the ones before it having a value, is the outcome of the whole call.
\<close>

theorem zero_value_by_kind:
  "emptyValueOf (Basic ''int64'') = Inr ''0'' \<and>
   emptyValueOf (Basic ''string'') = Inr [CHR 0x22, CHR 0x22] \<and>
   emptyValueOf (Basic ''bool'') = Inr ''false'' \<and>
   emptyValueOf (Named s ''int64'') = Inr ''0'' \<and>
   emptyValueOf (Named s ''string'') = Inr [CHR 0x22, CHR 0x22] \<and>
   emptyValueOf (Named s ''bool'') = Inr ''false'' \<and>
   (n \<noteq> ''int64'' \<and> n \<noteq> ''string'' \<and> n \<noteq> ''bool'' \<longrightarrow>
      emptyValueOf (Basic n) = Inl (Panic (''no nil value for basic type known: '' @ n)) \<and>
      emptyValueOf (Named s n) =
        Inl (Panic (''no nil value for named type known: '' @ s @ '', '' @ n))) \<and>
   emptyValueOf (Composite Pointer c) = Inr ''nil'' \<and>
   emptyValueOf (Composite Slice c) = Inr ''nil'' \<and>
   emptyValueOf (Composite MapT c) = Inr ''nil'' \<and>
   emptyValueOf (Composite Chan c) = Inr ''nil'' \<and>
   emptyValueOf (Composite InterfaceT c) = Inr ''nil'' \<and>
   emptyValueOf (Composite SignatureT c) = Inr ''nil'' \<and>
   (Type e = ''error'' \<and> map (emptyValueOf \<circ> OriginalType) pre = map Inr vs \<longrightarrow>
      FuncReturnErr (Inr (pre @ [e])) =
        Inr (if pre = [] then '''' else Join vs '', '' @ '','')) \<and>
   ((rs = [] \<or> Type (last rs) \<noteq> ''error'') \<and>
    map (emptyValueOf \<circ> OriginalType) rs = map Inr ws \<longrightarrow>
      FuncReturnErr (Inr rs) = Inr (if rs = [] then '''' else Join ws '', '' @ '','')) \<and>
   (map (emptyValueOf \<circ> OriginalType) before = map Inr us \<and>
    emptyValueOf (OriginalType r) = Inl p \<and> \<not> (Type r = ''error'' \<and> after = []) \<longrightarrow>
      FuncReturnErr (Inr (before @ r # after)) = Inl p)"
proof -
  have table: "emptyValueOf (Basic ''int64'') = Inr ''0'' \<and>
   emptyValueOf (Basic ''string'') = Inr [CHR 0x22, CHR 0x22] \<and>
   emptyValueOf (Basic ''bool'') = Inr ''false'' \<and>
   emptyValueOf (Named s ''int64'') = Inr ''0'' \<and>
   emptyValueOf (Named s ''string'') = Inr [CHR 0x22, CHR 0x22] \<and>
   emptyValueOf (Named s ''bool'') = Inr ''false''"
    by (simp add: emptyValueOf_def)
  have others: "n \<noteq> ''int64'' \<and> n \<noteq> ''string'' \<and> n \<noteq> ''bool'' \<longrightarrow>
      emptyValueOf (Basic n) = Inl (Panic (''no nil value for basic type known: '' @ n)) \<and>
      emptyValueOf (Named s n) =
        Inl (Panic (''no nil value for named type known: '' @ s @ '', '' @ n))"
    by (simp add: emptyValueOf_def)
  have nilable: "emptyValueOf (Composite Pointer c) = Inr ''nil'' \<and>
   emptyValueOf (Composite Slice c) = Inr ''nil'' \<and>
   emptyValueOf (Composite MapT c) = Inr ''nil'' \<and>
   emptyValueOf (Composite Chan c) = Inr ''nil'' \<and>
   emptyValueOf (Composite InterfaceT c) = Inr ''nil'' \<and>
   emptyValueOf (Composite SignatureT c) = Inr ''nil''"
    by (simp add: emptyValueOf_def)
  have terminal: "FuncReturnErr (Inr (pre @ [e])) =
        Inr (if pre = [] then '''' else Join vs '', '' @ '','')"
    if "Type e = ''error''" "map (emptyValueOf \<circ> OriginalType) pre = map Inr vs"
    using that by (rule FuncReturnErr_values)
  have plain: "FuncReturnErr (Inr rs) = Inr (if rs = [] then '''' else Join ws '', '' @ '','')"
    if "rs = [] \<or> Type (last rs) \<noteq> ''error''"
      "map (emptyValueOf \<circ> OriginalType) rs = map Inr ws"
    using that by (rule FuncReturnErr_no_terminal)
  have panic: "FuncReturnErr (Inr (before @ r # after)) = Inl p"
    if "map (emptyValueOf \<circ> OriginalType) before = map Inr us"
      "emptyValueOf (OriginalType r) = Inl p" "\<not> (Type r = ''error'' \<and> after = [])"
    using that by (rule FuncReturnErr_first_panic)
  show ?thesis
    using table others nilable terminal plain panic by blast
qed

theorem zero_value_by_kind_witness:
  "''int'' \<noteq> ''int64'' \<and> ''int'' \<noteq> ''string'' \<and> ''int'' \<noteq> ''bool'' \<and>
   emptyValueOf (Basic ''int'') = Inl (Panic ''no nil value for basic type known: int'') \<and>
   Type errResult = ''error'' \<and>
   map (emptyValueOf \<circ> OriginalType) [int64Result, sliceResult] = map Inr [''0'', ''nil''] \<and>
   FuncReturnErr (Inr ([int64Result, sliceResult] @ [errResult])) = Inr ''0, nil,'' \<and>
   Type (last [ptrResult, int64Result]) \<noteq> ''error'' \<and>
   map (emptyValueOf \<circ> OriginalType) [ptrResult, int64Result] = map Inr [''nil'', ''0''] \<and>
   FuncReturnErr (Inr [ptrResult, int64Result]) = Inr ''nil, 0,'' \<and>
   map (emptyValueOf \<circ> OriginalType) [int64Result] = map Inr [''0''] \<and>
   emptyValueOf (OriginalType intResult) = Inl (Panic ''no nil value for basic type known: int'') \<and>
   Type intResult \<noteq> ''error'' \<and>
   FuncReturnErr (Inr ([int64Result] @ intResult # [])) =
     Inl (Panic ''no nil value for basic type known: int'') \<and>
   FuncReturnErr (Inr ([int64Result] @ intResult # [ptrResult, errResult])) =
     Inl (Panic ''no nil value for basic type known: int'')"
  using zero_value_by_kind [where n = "''int''" and e = errResult
      and pre = "[int64Result, sliceResult]" and vs = "[''0'', ''nil'']"
      and rs = "[ptrResult, int64Result]" and ws = "[''nil'', ''0'']"
      and before = "[int64Result]" and us = "[''0'']"
      and r = intResult and p = "Panic ''no nil value for basic type known: int''"
      and after = "[]"]
    zero_value_by_kind [where before = "[int64Result]" and us = "[''0'']"
      and r = intResult and p = "Panic ''no nil value for basic type known: int''"
      and after = "[ptrResult, errResult]"]
  by (simp add: emptyValueOf_def errResult_def int64Result_def sliceResult_def intResult_def
      ptrResult_def)

text \<open>
  Against C3 as stated: a slice result gets \<^verbatim>\<open>nil\<close> and no error, and an \<^verbatim>\<open>int\<close> result,
  a scalar integer, is a panic and not \<^verbatim>\<open>0\<close>.
\<close>

theorem composite_gets_nil_and_int_panics:
  "FuncReturnErr (Inr [sliceResult, errResult]) = Inr ''nil,'' \<and>
   FuncReturnErr (Inr [intResult, errResult]) =
     Inl (Panic ''no nil value for basic type known: int'')"
  by (simp add: FuncReturnErr_def emptyValueOf_def sliceResult_def intResult_def errResult_def)

section \<open>Variadic parameters\<close>

text \<open>
  C6, at the method \<^verbatim>\<open>Do(ctx context.Context, req *Request, names ...string) error\<close>: the
  variadic parameter keeps its positional name \<^verbatim>\<open>param2\<close> and the signature renders its
  type as \<^verbatim>\<open>...string\<close>, but \<^verbatim>\<open>FuncCall\<close> forwards the bare name, so the delegated call of
  the mutex and trace templates is \<^verbatim>\<open>t.next.Do(ctx, param1, param2)\<close>, without the
  expansion \<^verbatim>\<open>param2...\<close>.
\<close>

theorem variadic_call_without_expansion:
  "FuncSignature (Inr [ctxParam, reqParam, variadicParam]) (Inr [errResult]) =
     Inr ''(ctx context.Context, param1 *Request, param2 ...string) (error)'' \<and>
   FuncCall (Inr [ctxParam, reqParam, variadicParam]) = Inr ''ctx, param1, param2'' \<and>
   FuncResults (Inr [errResult]) = Inr ''err = '' \<and>
   delegate_line ''err = '' ''Do'' ''ctx, param1, param2'' =
     ''err =  t.next.Do(ctx, param1, param2)''"
  by (simp add: FuncSignature_def FuncCall_def FuncResults_def delegate_line_def upt_rec
      paramName_def ctxParam_def reqParam_def variadicParam_def errResult_def HasSuffix_def
      TrimPrefix_def HasPrefix_def Itoa_0 Itoa_1 Itoa_2 enumerate_eq_zip)

section \<open>Extraction and validation\<close>

lemma run_validators_pass:
  "\<forall>f\<in>set fs. f sg = None \<Longrightarrow>
   run_validators fs name sg log = (None, log @ replicate (length fs) name)"
  by (induction fs arbitrary: log) (simp_all add: replicate_app_Cons_same)

lemma run_validators_fail:
  "\<forall>g\<in>set vpre. g sg = None \<Longrightarrow> f sg = Some e \<Longrightarrow>
   run_validators (vpre @ f # vpost) name sg log =
     (Some (Wrap e (''failed to validate method '' @ [CHR 0x27] @ name @ [CHR 0x27])),
      log @ replicate (Suc (length vpre)) name)"
  by (induction vpre arbitrary: log) (simp_all add: replicate_app_Cons_same)

lemma processInterface_pass:
  "\<forall>(name, sg)\<in>set t. \<forall>f\<in>set (validators v). f sg = None \<Longrightarrow>
   processInterface v (t @ rest) =
     processInterface
       (v\<lparr>methods := methods v ++ map_of (rev t),
          validated := validated v @ concat (map (\<lambda>(name, sg). replicate (length (validators v)) name) t)\<rparr>)
       rest"
proof (induction t arbitrary: v)
  case Nil
  then show ?case by simp
next
  case (Cons m t)
  obtain name sg where m: "m = (name, sg)" by (cases m)
  let ?v = "v\<lparr>methods := (methods v)(name \<mapsto> sg),
               validated := validated v @ replicate (length (validators v)) name\<rparr>"
  from Cons.prems m have here: "\<forall>f\<in>set (validators v). f sg = None"
    and later: "\<forall>(name, sg)\<in>set t. \<forall>f\<in>set (validators ?v). f sg = None"
    by auto
  have step: "processInterface v ((m # t) @ rest) = processInterface ?v (t @ rest)"
    using here by (simp add: m run_validators_pass)
  have maps: "(methods v)(name \<mapsto> sg) ++ map_of (rev t) = methods v ++ map_of (rev (m # t))"
    by (simp add: m map_add_def fun_eq_iff split: option.splits)
  show ?case
    unfolding step Cons.IH [OF later] using maps by (simp add: m)
qed

lemma processInterface_fail:
  assumes "\<forall>(name, sg)\<in>set pre. \<forall>f\<in>set (validators v). f sg = None"
    and "validators v = vpre @ f # vpost" and "\<forall>g\<in>set vpre. g sg = None" and "f sg = Some e"
  shows "processInterface v (pre @ (name, sg) # post) =
     (Some (Wrap e (''failed to validate method '' @ [CHR 0x27] @ name @ [CHR 0x27])),
      v\<lparr>methods := methods v ++ map_of (rev pre),
        validated := validated v @ concat (map (\<lambda>(name, sg). replicate (length (validators v)) name) pre)
                     @ replicate (Suc (length vpre)) name\<rparr>)"
proof -
  have "run_validators (vpre @ f # vpost) name sg log =
     (Some (Wrap e (''failed to validate method '' @ [CHR 0x27] @ name @ [CHR 0x27])),
      log @ replicate (Suc (length vpre)) name)" for log
    using assms(3,4) by (rule run_validators_fail)
  then show ?thesis
    unfolding processInterface_pass [OF assms(1)] using assms(2) by simp
qed

lemma Visit_skip:
  "\<not> unresolved node \<Longrightarrow> \<not> declares (sname v) node \<Longrightarrow> Visit v node = Inr v"
  by (cases "(sname v, node)" rule: declares.cases) (auto simp: Visit_def)

lemma Visit_after_error:
  "\<not> unresolved node \<Longrightarrow> err v \<noteq> None \<Longrightarrow> Visit v node = Inr v"
  by (cases node rule: unresolved.cases) (auto simp: Visit_def split: expr_type.splits)

lemma Walk_skip:
  "\<forall>node\<in>set nodes. \<not> unresolved node \<and> \<not> declares (sname v) node \<Longrightarrow> Walk v nodes = Inr v"
  by (induction nodes) (simp_all add: Visit_skip)

lemma Walk_after_error:
  "\<forall>node\<in>set nodes. \<not> unresolved node \<Longrightarrow> err v \<noteq> None \<Longrightarrow> Walk v nodes = Inr v"
  by (induction nodes) (simp_all add: Visit_after_error)

lemma Walk_append:
  "Walk v (xs @ ys) = (case Walk v xs of Inl x \<Rightarrow> Inl x | Inr v' \<Rightarrow> Walk v' ys)"
  by (induction xs arbitrary: v) (simp_all split: sum.splits)

lemma walk_files_concat: "walk_files v files = Walk v (concat files)"
  by (induction files arbitrary: v) (simp_all add: Walk_append split: sum.splits)

lemma Generate_loaded:
  assumes "sourcePath w = Inr sp" and "destPath w = Inr dp" and "program w = Inr files"
  shows "Generate w vs interfaceName =
     (case Walk (newVisitor vs interfaceName) (concat files) of
        Inl x \<Rightarrow> (Inl x, [])
      | Inr v \<Rightarrow>
          (case err v of
             Some e \<Rightarrow> (Inl (Err (Wrap e ''failed to parse interface'')), [])
           | None \<Rightarrow> render_and_write w (methods v)))"
  using assms by (simp add: Generate_def walk_files_concat)

lemma Walk_no_match:
  assumes "\<forall>node\<in>set nodes. \<not> unresolved node \<and> \<not> declares interfaceName node"
  shows "Walk (newVisitor vs interfaceName) nodes = Inr (newVisitor vs interfaceName)"
  using assms by (intro Walk_skip) (simp add: newVisitor_def)

lemma Walk_one_match:
  assumes before: "\<forall>node\<in>set before. \<not> unresolved node \<and> \<not> declares interfaceName node"
    and after: "\<forall>node\<in>set after. \<not> unresolved node \<and> \<not> declares interfaceName node"
    and pass: "\<forall>(name, sg)\<in>set t. \<forall>f\<in>set vs. f sg = None"
  shows "Walk (newVisitor vs interfaceName)
           (before @ TypeSpec interfaceName (Inr (InterfaceType t)) # after) =
         Inr ((newVisitor vs interfaceName)
               \<lparr>methods := map_of (rev t),
                validated := concat (map (\<lambda>(name, sg). replicate (length vs) name) t)\<rparr>)"
proof -
  let ?v = "newVisitor vs interfaceName"
  let ?v' = "?v\<lparr>methods := map_of (rev t),
                validated := concat (map (\<lambda>(name, sg). replicate (length vs) name) t)\<rparr>"
  have pass': "\<forall>(name, sg)\<in>set t. \<forall>f\<in>set (validators ?v). f sg = None"
    using pass by (simp add: newVisitor_def)
  have "processInterface ?v (t @ []) = (None, ?v')"
    unfolding processInterface_pass [OF pass'] by (simp add: newVisitor_def)
  then have visit: "Visit ?v (TypeSpec interfaceName (Inr (InterfaceType t))) = Inr ?v'"
    by (simp add: Visit_def newVisitor_def)
  have rest: "Walk ?v' after = Inr ?v'"
    using after by (intro Walk_skip) (simp add: newVisitor_def)
  show ?thesis
    by (simp add: Walk_append Walk_no_match [OF before] visit rest)
qed

lemma Walk_first_failure:
  assumes before: "\<forall>node\<in>set before. \<not> unresolved node \<and> \<not> declares interfaceName node"
    and after: "\<forall>node\<in>set after. \<not> unresolved node"
    and pre: "\<forall>(name, sg)\<in>set pre. \<forall>f\<in>set vs. f sg = None"
    and vs: "vs = vpre @ f # vpost" and vpre: "\<forall>g\<in>set vpre. g sg = None" and f: "f sg = Some e"
  shows "Walk (newVisitor vs interfaceName)
           (before @ TypeSpec interfaceName (Inr (InterfaceType (pre @ (name, sg) # post))) # after) =
         Inr ((newVisitor vs interfaceName)
               \<lparr>methods := map_of (rev pre),
                err := Some (Wrap e (''failed to validate method '' @ [CHR 0x27] @ name @ [CHR 0x27])),
                validated := concat (map (\<lambda>(name, sg). replicate (length vs) name) pre)
                             @ replicate (Suc (length vpre)) name\<rparr>)"
proof -
  let ?v = "newVisitor vs interfaceName"
  let ?v' = "?v\<lparr>methods := map_of (rev pre),
                err := Some (Wrap e (''failed to validate method '' @ [CHR 0x27] @ name @ [CHR 0x27])),
                validated := concat (map (\<lambda>(name, sg). replicate (length vs) name) pre)
                             @ replicate (Suc (length vpre)) name\<rparr>"
  have pre': "\<forall>(name, sg)\<in>set pre. \<forall>f\<in>set (validators ?v). f sg = None"
    using pre by (simp add: newVisitor_def)
  have vs': "validators ?v = vpre @ f # vpost"
    using vs by (simp add: newVisitor_def)
  have "processInterface ?v (pre @ (name, sg) # post) =
      (Some (Wrap e (''failed to validate method '' @ [CHR 0x27] @ name @ [CHR 0x27])),
       ?v\<lparr>methods := map_of (rev pre),
          validated := concat (map (\<lambda>(name, sg). replicate (length vs) name) pre)
                       @ replicate (Suc (length vpre)) name\<rparr>)"
    using processInterface_fail [OF pre' vs' vpre f, of name post]
    by (simp add: newVisitor_def)
  then have visit:
    "Visit ?v (TypeSpec interfaceName (Inr (InterfaceType (pre @ (name, sg) # post)))) = Inr ?v'"
    by (simp add: Visit_def newVisitor_def)
  have rest: "Walk ?v' after = Inr ?v'"
    using after by (intro Walk_after_error) simp_all
  let ?decl = "TypeSpec interfaceName (Inr (InterfaceType (pre @ (name, sg) # post)))"
  have "Walk ?v (before @ ?decl # after) =
        (case Walk ?v before of Inl x \<Rightarrow> Inl x | Inr v' \<Rightarrow> Walk v' (?decl # after))"
    by (rule Walk_append)
  also have "\<dots> = Walk ?v (?decl # after)"
    by (simp only: Walk_no_match [OF before] sum.case)
  also have "\<dots> = Walk ?v' after"
    by (simp only: Walk.simps visit sum.case)
  finally show ?thesis
    by (simp only: rest)
qed

lemma fn_ctxSignature: "fn ctxSignature = None"
  by (simp add: fn_def ctxSignature_def ctxParam_def)

lemma fn_plainSignature: "fn plainSignature = Some (Errorf ''first param must be context.Context'')"
  by (simp add: fn_def plainSignature_def)

text \<open>
  C1, as the code has it: with the packages found and the program loaded, the visitor
  matches interface declarations by their exact name and has no failure for a missing
  name or for a name that is not an interface. When no node of the source files declares
  an interface of that name (and every type expression resolves), \<^verbatim>\<open>Generate\<close> goes on
  to render the template on the empty method set and to write the file. When one node
  declares it and its methods pass the validators, \<^verbatim>\<open>Generate\<close> renders the methods of
  that declaration. Rendering is always called on the method set, and the text is
  written when rendering succeeds.
\<close>

theorem extractor_matches_exact_name:
  assumes "sourcePath w = Inr sp" and "destPath w = Inr dp" and "program w = Inr files"
  shows
    "((\<forall>node\<in>set (concat files). \<not> unresolved node \<and> \<not> declares interfaceName node) \<longrightarrow>
        Generate w vs interfaceName = render_and_write w Map.empty) \<and>
     (concat files = before @ TypeSpec interfaceName (Inr (InterfaceType t)) # after \<and>
      (\<forall>node\<in>set (before @ after). \<not> unresolved node \<and> \<not> declares interfaceName node) \<and>
      (\<forall>(name, sg)\<in>set t. \<forall>f\<in>set vs. f sg = None) \<longrightarrow>
        Generate w vs interfaceName = render_and_write w (map_of (rev t))) \<and>
     (\<exists>result later. render_and_write w ms = (result, Rendered ms # later)) \<and>
     (ProcessTemplate w ms = Inr out \<longrightarrow>
        snd (render_and_write w ms) = [Rendered ms, Written out])"
proof -
  have none: "Generate w vs interfaceName = render_and_write w Map.empty"
    if "\<forall>node\<in>set (concat files). \<not> unresolved node \<and> \<not> declares interfaceName node"
    unfolding Generate_loaded [OF assms] Walk_no_match [OF that]
    by (simp add: newVisitor_def)
  have one: "Generate w vs interfaceName = render_and_write w (map_of (rev t))"
    if c: "concat files = before @ TypeSpec interfaceName (Inr (InterfaceType t)) # after"
      and n: "\<forall>node\<in>set (before @ after). \<not> unresolved node \<and> \<not> declares interfaceName node"
      and p: "\<forall>(name, sg)\<in>set t. \<forall>f\<in>set vs. f sg = None"
  proof -
    from n have b: "\<forall>node\<in>set before. \<not> unresolved node \<and> \<not> declares interfaceName node"
      and a: "\<forall>node\<in>set after. \<not> unresolved node \<and> \<not> declares interfaceName node"
      by auto
    show ?thesis
      unfolding Generate_loaded [OF assms] c Walk_one_match [OF b a p]
      by (simp add: newVisitor_def)
  qed
  have renders: "\<exists>result later. render_and_write w ms = (result, Rendered ms # later)"
    by (simp add: render_and_write_def split: sum.splits option.splits)
  have writes: "snd (render_and_write w ms) = [Rendered ms, Written out]"
    if "ProcessTemplate w ms = Inr out"
    using that by (simp add: render_and_write_def split: option.splits)
  show ?thesis
    using none one renders writes by blast
qed

theorem extractor_matches_exact_name_witness:
  "Generate (loaded [[OtherNode, TypeSpec ''Service'' (Inr OtherType)]]) [fn] ''Service'' =
     (Inr (), [Rendered Map.empty, Written ''package app'']) \<and>
   Generate (loaded [[OtherNode, TypeSpec ''Service'' (Inr (InterfaceType [(''Do'', ctxSignature)]))],
                     [TypeSpec ''Request'' (Inr OtherType)]]) [fn] ''Service'' =
     (Inr (), [Rendered [''Do'' \<mapsto> ctxSignature], Written ''package app'']) \<and>
   ProcessTemplate (loaded [[OtherNode, TypeSpec ''Service'' (Inr OtherType)]]) Map.empty =
     Inr ''package app'' \<and>
   snd (render_and_write (loaded [[OtherNode, TypeSpec ''Service'' (Inr OtherType)]]) Map.empty) =
     [Rendered Map.empty, Written ''package app'']"
proof -
  let ?absent = "[[OtherNode, TypeSpec ''Service'' (Inr OtherType)]]"
  let ?present = "[[OtherNode, TypeSpec ''Service'' (Inr (InterfaceType [(''Do'', ctxSignature)]))],
                     [TypeSpec ''Request'' (Inr OtherType)]]"
  have s: "sourcePath (loaded files) = Inr ''example.com/app''"
    and d: "destPath (loaded files) = Inr ''example.com/app''"
    and p: "program (loaded files) = Inr files" for files
    by (simp_all add: loaded_def)
  have r: "render_and_write (loaded files) ms = (Inr (), [Rendered ms, Written ''package app''])"
    for files ms
    by (simp add: render_and_write_def loaded_def renderConst_def writeOk_def)
  have absent: "\<forall>node\<in>set (concat ?absent). \<not> unresolved node \<and> \<not> declares ''Service'' node"
    by simp
  have present: "concat ?present =
      [OtherNode] @ TypeSpec ''Service'' (Inr (InterfaceType [(''Do'', ctxSignature)]))
        # [TypeSpec ''Request'' (Inr OtherType)] \<and>
      (\<forall>node\<in>set ([OtherNode] @ [TypeSpec ''Request'' (Inr OtherType)]).
          \<not> unresolved node \<and> \<not> declares ''Service'' node) \<and>
      (\<forall>(name, sg)\<in>set [(''Do'', ctxSignature)]. \<forall>f\<in>set [fn]. f sg = None)"
    by (simp add: fn_ctxSignature)
  from extractor_matches_exact_name [OF s d p, where files = ?absent
      and interfaceName = "''Service''" and vs = "[fn]"] absent
  have 1: "Generate (loaded ?absent) [fn] ''Service'' = render_and_write (loaded ?absent) Map.empty"
    by blast
  from extractor_matches_exact_name [OF s d p, where files = ?present
      and before = "[OtherNode]" and interfaceName = "''Service''"
      and t = "[(''Do'', ctxSignature)]" and after = "[TypeSpec ''Request'' (Inr OtherType)]"
      and vs = "[fn]"] present
  have 2: "Generate (loaded ?present) [fn] ''Service'' =
      render_and_write (loaded ?present) (map_of (rev [(''Do'', ctxSignature)]))"
    by blast
  have t: "ProcessTemplate (loaded ?absent) Map.empty = Inr ''package app''"
    by (simp add: loaded_def renderConst_def)
  from extractor_matches_exact_name [OF s d p, where files = ?absent
      and ms = Map.empty and out = "''package app''"] t
  have 3: "snd (render_and_write (loaded ?absent) Map.empty) =
      [Rendered Map.empty, Written ''package app'']"
    by blast
  show ?thesis
    unfolding 1 2 using r 3 t by simp
qed

text \<open>
  Against C1 as stated: with no declaration named \<^verbatim>\<open>Service\<close>, and with \<^verbatim>\<open>Service\<close>
  declared as a type that is no interface, \<^verbatim>\<open>Generate\<close> returns no error, renders the
  empty method set and writes the file.
\<close>

theorem missing_interface_still_rendered:
  "Generate (loaded [[OtherNode, TypeSpec ''Other'' (Inr (InterfaceType [(''Do'', ctxSignature)]))]])
     [fn] ''Service'' = (Inr (), [Rendered Map.empty, Written ''package app'']) \<and>
   Generate (loaded [[OtherNode, TypeSpec ''Service'' (Inr OtherType)]])
     [fn] ''Service'' = (Inr (), [Rendered Map.empty, Written ''package app''])"
  by (simp add: Generate_def loaded_def Visit_def newVisitor_def render_and_write_def
      renderConst_def writeOk_def)

text \<open>
  C2, as the code has it: when a method of the declared interface fails a validator,
  the methods before it passing all of them, \<^verbatim>\<open>Generate\<close> returns the error of the
  first failing validator of that method, wrapped with the name of the method and with
  \<^verbatim>\<open>failed to parse interface\<close>, and renders and writes nothing. The validators were
  called on the methods before it and on the failing method up to its failing
  validator, and on no method after it.
\<close>

theorem validation_fails_fast:
  assumes "sourcePath w = Inr sp" and "destPath w = Inr dp" and "program w = Inr files"
    and "concat files =
           before @ TypeSpec interfaceName (Inr (InterfaceType (pre @ (name, sg) # post))) # after"
    and "\<forall>node\<in>set before. \<not> unresolved node \<and> \<not> declares interfaceName node"
    and "\<forall>node\<in>set after. \<not> unresolved node"
    and "\<forall>(name, sg)\<in>set pre. \<forall>f\<in>set vs. f sg = None"
    and "vs = vpre @ f # vpost" and "\<forall>g\<in>set vpre. g sg = None" and "f sg = Some e"
  shows
    "Generate w vs interfaceName =
       (Inl (Err (Wrap (Wrap e (''failed to validate method '' @ [CHR 0x27] @ name @ [CHR 0x27]))
                       ''failed to parse interface'')), []) \<and>
     map_sum id validated (walk_files (newVisitor vs interfaceName) files) =
       Inr (concat (map (\<lambda>(name, sg). replicate (length vs) name) pre)
            @ replicate (Suc (length vpre)) name)"
  unfolding Generate_loaded [OF assms(1-3)] walk_files_concat assms(4)
    Walk_first_failure [OF assms(5-10)]
  by simp

theorem validation_fails_fast_witness:
  "Generate (loaded [[OtherNode,
       TypeSpec ''Service'' (Inr (InterfaceType
         [(''Do'', ctxSignature), (''Get'', plainSignature), (''Put'', plainSignature)])),
       OtherNode]]) [fn] ''Service'' =
     (Inl (Err (Wrap (Wrap (Errorf ''first param must be context.Context'')
                        (''failed to validate method '' @ [CHR 0x27] @ ''Get'' @ [CHR 0x27]))
                  ''failed to parse interface'')), []) \<and>
   map_sum id validated (walk_files (newVisitor [fn] ''Service'') [[OtherNode,
       TypeSpec ''Service'' (Inr (InterfaceType
         [(''Do'', ctxSignature), (''Get'', plainSignature), (''Put'', plainSignature)])),
       OtherNode]]) = Inr [''Do'', ''Get'']"
proof -
  let ?t = "[(''Do'', ctxSignature), (''Get'', plainSignature), (''Put'', plainSignature)]"
  let ?files = "[[OtherNode, TypeSpec ''Service'' (Inr (InterfaceType ?t)), OtherNode]]"
  have s: "sourcePath (loaded ?files) = Inr ''example.com/app''"
    and d: "destPath (loaded ?files) = Inr ''example.com/app''"
    and p: "program (loaded ?files) = Inr ?files"
    by (simp_all add: loaded_def)
  have c: "concat ?files = [OtherNode] @ TypeSpec ''Service'' (Inr (InterfaceType
      ([(''Do'', ctxSignature)] @ (''Get'', plainSignature) # [(''Put'', plainSignature)]))) # [OtherNode]"
    by simp
  have b: "\<forall>node\<in>set [OtherNode]. \<not> unresolved node \<and> \<not> declares ''Service'' node"
    and a: "\<forall>node\<in>set [OtherNode]. \<not> unresolved node"
    by simp_all
  have pre: "\<forall>(name, sg)\<in>set [(''Do'', ctxSignature)]. \<forall>f\<in>set [fn]. f sg = None"
    by (simp add: fn_ctxSignature)
  have vs: "[fn] = [] @ fn # []"
    by simp
  have vpre: "\<forall>g\<in>set []. g plainSignature = None"
    by simp
  from validation_fails_fast [OF s d p c b a pre vs vpre fn_plainSignature] show ?thesis
    by simp
qed

text \<open>
  Against C2 as stated: of two methods that both fail the validator, only the first is
  validated and named in the error.
\<close>

theorem later_methods_not_validated:
  "fst (processInterface (newVisitor [fn] ''Service'')
          [(''Get'', plainSignature), (''Put'', plainSignature)]) =
     Some (Wrap (Errorf ''first param must be context.Context'')
             (''failed to validate method '' @ [CHR 0x27] @ ''Get'' @ [CHR 0x27])) \<and>
   validated (snd (processInterface (newVisitor [fn] ''Service'')
          [(''Get'', plainSignature), (''Put'', plainSignature)])) = [''Get'']"
  by (simp add: newVisitor_def fn_plainSignature)

end
